theory Spec2Isabelle
  imports Main
begin

section \<open>JSON values, Python exceptions, responses\<close>

text \<open>
  The request and response bodies of \<^verbatim>\<open>app.py\<close> are JSON documents that Python holds as
  dynamically typed values. JSON numbers are modelled by integers, a JSON object by the list
  of its items (the keys of one object are distinct, as in a Python dict).
\<close>

datatype json =
    JNull
  | JBool bool
  | JInt int
  | JStr string
  | JArr "json list"
  | JObj "(string \<times> json) list"

text \<open>
  The exceptions that the handlers can meet. Every one of them is an instance of Python's
  \<^verbatim>\<open>Exception\<close>, so every \<^verbatim>\<open>except Exception\<close> clause of the source catches it.
\<close>

datatype exn =
    BadRequest \<comment> \<open>\<^verbatim>\<open>request.json\<close>: the request carries no JSON document\<close>
  | KeyError string \<comment> \<open>\<^verbatim>\<open>data[k]\<close> on a dict without key k\<close>
  | TypeError \<comment> \<open>\<^verbatim>\<open>data[k]\<close> on a value that is not a dict\<close>
  | AttributeError \<comment> \<open>\<^verbatim>\<open>data.get\<close> on a value that is not a dict\<close>
  | NotFound \<comment> \<open>werkzeug's 404, raised by \<^verbatim>\<open>get_or_404\<close> and \<^verbatim>\<open>send_from_directory\<close>\<close>
  | IntegrityError string \<comment> \<open>NOT NULL constraint failed on the named column\<close>
  | StatementError \<comment> \<open>a value that the column's type cannot bind\<close>
  | OperationalError \<comment> \<open>the database cannot be read or written\<close>
  | StaleDataError \<comment> \<open>an UPDATE that matches no row\<close>
  | ObjectDeletedError \<comment> \<open>an object is reloaded and its row is gone\<close>
  | PendingRollbackError \<comment> \<open>the session is used after a failed flush, before a rollback\<close>

text \<open>
  \<^verbatim>\<open>str(e)\<close>. The text of a \<^verbatim>\<open>KeyError\<close> is Python's own (the repr of the key) and
  that of \<^verbatim>\<open>NotFound\<close> is werkzeug's; the other texts abbreviate the messages of the
  libraries, which carry the statement and its parameters as well. No statement below
  depends on a text.
\<close>

fun str_exn :: "exn \<Rightarrow> string" where
  "str_exn BadRequest = ''400 Bad Request''"
| "str_exn (KeyError k) = [CHR 0x27] @ k @ [CHR 0x27]"
| "str_exn TypeError = ''object is not subscriptable''"
| "str_exn AttributeError = ''object has no attribute get''"
| "str_exn NotFound =
     ''404 Not Found: The requested URL was not found on the server. '' @
     ''If you entered the URL manually please check your spelling and try again.''"
| "str_exn (IntegrityError c) = ''NOT NULL constraint failed: '' @ c"
| "str_exn StatementError = ''unsupported parameter value''"
| "str_exn OperationalError = ''unable to open database file''"
| "str_exn StaleDataError = ''UPDATE statement expected to update 1 row; 0 were matched''"
| "str_exn ObjectDeletedError = ''instance has been deleted, or its row is otherwise not present''"
| "str_exn PendingRollbackError = ''transaction has been rolled back due to a previous exception during flush''"

datatype body =
    Json json \<comment> \<open>\<^verbatim>\<open>jsonify(...)\<close>\<close>
  | Text string \<comment> \<open>a view that returns a Python string\<close>
  | File string \<comment> \<open>the content of a static file\<close>

type_synonym response = "nat \<times> body"

section \<open>The model class Schedule\<close>

text \<open>
  A row of table \<^verbatim>\<open>schedule\<close>. \<^verbatim>\<open>date\<close> and \<^verbatim>\<open>user\<close> are declared
  \<^verbatim>\<open>nullable=False\<close>; the other three columns may hold NULL (\<open>None\<close>).
\<close>

record schedule =
  id' :: int
  date :: string
  user :: string
  checkInTime :: "string option"
  exercised :: "bool option"
  reflection :: "string option"

definition opt_str :: "string option \<Rightarrow> json" where
  "opt_str v = (case v of None \<Rightarrow> JNull | Some s \<Rightarrow> JStr s)"

definition opt_bool :: "bool option \<Rightarrow> json" where
  "opt_bool v = (case v of None \<Rightarrow> JNull | Some b \<Rightarrow> JBool b)"

definition to_dict :: "schedule \<Rightarrow> json" where
  "to_dict self = JObj
     [(''id'', JInt (id' self)),
      (''date'', JStr (date self)),
      (''user'', JStr (user self)),
      (''checkInTime'', opt_str (checkInTime self)),
      (''exercised'', opt_bool (exercised self)),
      (''reflection'', opt_str (reflection self))]"

text \<open>Sequencing of steps that may raise: the first exception ends the sequence.\<close>

definition and_then :: "exn + 'a \<Rightarrow> ('a \<Rightarrow> exn + 'b) \<Rightarrow> exn + 'b" where
  "and_then m f = (case m of Inl e \<Rightarrow> Inl e | Inr v \<Rightarrow> f v)"

section \<open>The database behind the session\<close>

text \<open>
  \<^verbatim>\<open>db = SQLAlchemy(app)\<close> over an SQLite file. What the source relies on is written out here:
  how a Python value is bound to a column, what a flush does, and when it fails.
\<close>

fun digits :: "nat \<Rightarrow> string" where
  "digits n = (if n < 10 then [char_of (48 + n)] else digits (n div 10) @ [char_of (48 + n mod 10)])"

definition show_int :: "int \<Rightarrow> string" where
  "show_int i = (if i < 0 then CHR ''-'' # digits (nat (- i)) else digits (nat i))"

text \<open>
  A \<^verbatim>\<open>String\<close> or \<^verbatim>\<open>Text\<close> column: SQLite stores a number handed to a column of text
  affinity as its decimal text (a Python bool is the integer 0 or 1); a list or a dict cannot
  be bound, nor an integer outside 64 bits.
\<close>

fun bind_text :: "json \<Rightarrow> exn + string option" where
  "bind_text JNull = Inr None"
| "bind_text (JStr s) = Inr (Some s)"
| "bind_text (JBool b) = Inr (Some (if b then ''1'' else ''0''))"
| "bind_text (JInt n) =
     (if - (2 ^ 63) \<le> n \<and> n < 2 ^ 63 then Inr (Some (show_int n)) else Inl StatementError)"
| "bind_text (JArr xs) = Inl StatementError"
| "bind_text (JObj kvs) = Inl StatementError"

text \<open>
  A \<^verbatim>\<open>Boolean\<close> column accepts None, True, False and the integers 0 and 1 that Python
  counts as equal to them; anything else is refused as not a boolean value.
\<close>

fun bind_bool :: "json \<Rightarrow> exn + bool option" where
  "bind_bool JNull = Inr None"
| "bind_bool (JBool b) = Inr (Some b)"
| "bind_bool (JInt n) =
     (if n = 0 then Inr (Some False) else if n = 1 then Inr (Some True) else Inl StatementError)"
| "bind_bool (JStr s) = Inl StatementError"
| "bind_bool (JArr xs) = Inl StatementError"
| "bind_bool (JObj kvs) = Inl StatementError"

text \<open>
  What the session holds between a change and its commit: an object given to
  \<^verbatim>\<open>db.session.add\<close>, built by \<^verbatim>\<open>Schedule(date, user, checkInTime, exercised, reflection)\<close>,
  or a loaded row (named by its primary key) whose attributes \<^verbatim>\<open>checkInTime\<close>,
  \<^verbatim>\<open>exercised\<close>, \<^verbatim>\<open>reflection\<close> have been assigned.
\<close>

datatype pending =
    New json json json json json
  | Dirty int json json json

text \<open>
  The state a request runs in: the committed rows of the table in row order, whether the
  database file is available to this request, and the session (its staged objects, and
  whether a failed flush has left it inactive, waiting for \<^verbatim>\<open>rollback()\<close>).
\<close>

record state =
  rows :: "schedule list"
  available :: bool
  staged :: "pending list"
  needs_rollback :: bool

text \<open>
  \<^verbatim>\<open>id = db.Column(db.Integer, primary_key=True)\<close> is SQLite's rowid: a row inserted
  without an id receives one more than the largest id in the table, 1 in an empty table.
  Ids are unbounded integers here. SQLite's are 64 bits wide: only in a table that already
  holds the id \<open>2 ^ 63 - 1\<close> does it depart from this rule, taking an unused id at random.
\<close>

definition next_id :: "schedule list \<Rightarrow> int" where
  "next_id rs = (case map id' rs of [] \<Rightarrow> 1 | i # js \<Rightarrow> fold max js i + 1)"

text \<open>
  The INSERT or UPDATE of one staged object; the result is the new table and the primary
  key of the object. On INSERT an attribute that is None is left out of the statement, so
  the column default (\<^verbatim>\<open>default=False\<close> of \<^verbatim>\<open>exercised\<close>) applies, and a missing
  \<^verbatim>\<open>date\<close> or \<^verbatim>\<open>user\<close> violates NOT NULL.
\<close>

definition not_null :: "string \<Rightarrow> string option \<Rightarrow> exn + string" where
  "not_null col v = (case v of None \<Rightarrow> Inl (IntegrityError col) | Some s \<Rightarrow> Inr s)"

definition with_default :: "bool \<Rightarrow> bool option \<Rightarrow> bool option" where
  "with_default d v = (case v of None \<Rightarrow> Some d | Some b \<Rightarrow> Some b)"

fun flush_one :: "schedule list \<Rightarrow> pending \<Rightarrow> exn + schedule list \<times> int" where
  "flush_one rs (New d u c e r) =
     and_then (bind_text d) (\<lambda>d'.
     and_then (bind_text u) (\<lambda>u'.
     and_then (bind_text c) (\<lambda>c'.
     and_then (bind_bool e) (\<lambda>e'.
     and_then (bind_text r) (\<lambda>r'.
     and_then (not_null ''schedule.date'' d') (\<lambda>ds.
     and_then (not_null ''schedule.user'' u') (\<lambda>us.
       Inr (rs @ [\<lparr>id' = next_id rs, date = ds, user = us, checkInTime = c',
                    exercised = with_default False e', reflection = r'\<rparr>],
            next_id rs))))))))"
| "flush_one rs (Dirty i c e r) =
     and_then (bind_text c) (\<lambda>c'.
     and_then (bind_bool e) (\<lambda>e'.
     and_then (bind_text r) (\<lambda>r'.
       if i \<in> set (map id' rs)
       then Inr (map (\<lambda>x. if id' x = i
                           then x\<lparr>checkInTime := c', exercised := e', reflection := r'\<rparr>
                           else x) rs, i)
       else Inl StaleDataError)))"

fun flush :: "schedule list \<Rightarrow> pending list \<Rightarrow> exn + schedule list \<times> int list" where
  "flush rs [] = Inr (rs, [])"
| "flush rs (p # ps) =
     and_then (flush_one rs p) (\<lambda>(rs1, k).
     and_then (flush rs1 ps) (\<lambda>(rs2, ks). Inr (rs2, k # ks)))"

definition session_add :: "state \<Rightarrow> pending \<Rightarrow> state" where
  "session_add s p = s\<lparr>staged := staged s @ [p]\<rparr>"

text \<open>Assigning attributes of a loaded object stages it as well.\<close>

definition set_attributes :: "state \<Rightarrow> pending \<Rightarrow> state" where
  "set_attributes s p = s\<lparr>staged := staged s @ [p]\<rparr>"

text \<open>
  \<^verbatim>\<open>db.session.commit()\<close>: all staged statements take effect, or none does. When the
  flush fails, \<^verbatim>\<open>commit()\<close> itself rolls the database transaction back and expunges the
  staged objects before it raises; what remains is that the session is inactive, refusing
  every further use until \<^verbatim>\<open>rollback()\<close> is called. The result is the list of primary
  keys of the flushed objects.
\<close>

definition session_commit :: "state \<Rightarrow> (exn + int list) \<times> state" where
  "session_commit s =
     (if needs_rollback s then (Inl PendingRollbackError, s)
      else if staged s = [] then (Inr [], s)
      else if \<not> available s then (Inl OperationalError, s\<lparr>staged := [], needs_rollback := True\<rparr>)
      else (case flush (rows s) (staged s) of
              Inl x \<Rightarrow> (Inl x, s\<lparr>staged := [], needs_rollback := True\<rparr>)
            | Inr (rs, ks) \<Rightarrow> (Inr ks, s\<lparr>rows := rs, staged := []\<rparr>)))"

definition session_rollback :: "state \<Rightarrow> state" where
  "session_rollback s = s\<lparr>staged := [], needs_rollback := False\<rparr>"

text \<open>A SELECT through the session: the committed rows, if the database can be read.\<close>

definition query_all :: "state \<Rightarrow> exn + schedule list" where
  "query_all s =
     (if needs_rollback s then Inl PendingRollbackError
      else if available s then Inr (rows s) else Inl OperationalError)"

definition get_or_404 :: "state \<Rightarrow> int \<Rightarrow> exn + schedule" where
  "get_or_404 s i =
     and_then (query_all s) (\<lambda>rs.
       case find (\<lambda>r. id' r = i) rs of None \<Rightarrow> Inl NotFound | Some r \<Rightarrow> Inr r)"

text \<open>
  After a commit the attributes of an object are expired: \<^verbatim>\<open>to_dict()\<close> reads them
  again from the row with the object's primary key.
\<close>

definition refresh :: "state \<Rightarrow> int list \<Rightarrow> exn + schedule" where
  "refresh s ks =
     (case rev ks of [] \<Rightarrow> Inl ObjectDeletedError
      | k # _ \<Rightarrow> and_then (query_all s) (\<lambda>rs.
          case find (\<lambda>r. id' r = k) rs of None \<Rightarrow> Inl ObjectDeletedError | Some r \<Rightarrow> Inr r))"

section \<open>Reading the request body\<close>

text \<open>
  \<^verbatim>\<open>request.json\<close> raises when the request has no JSON body (\<open>None\<close>).
  \<^verbatim>\<open>data[k]\<close> and \<^verbatim>\<open>data.get(k, default)\<close> work on a dict only.
\<close>

definition request_json :: "json option \<Rightarrow> exn + json" where
  "request_json b = (case b of None \<Rightarrow> Inl BadRequest | Some data \<Rightarrow> Inr data)"

fun getitem :: "json \<Rightarrow> string \<Rightarrow> exn + json" where
  "getitem (JObj kvs) k = (case map_of kvs k of None \<Rightarrow> Inl (KeyError k) | Some v \<Rightarrow> Inr v)"
| "getitem data k = Inl TypeError"

fun get_method :: "json \<Rightarrow> string \<Rightarrow> json \<Rightarrow> exn + json" where
  "get_method (JObj kvs) k dflt = (case map_of kvs k of None \<Rightarrow> Inr dflt | Some v \<Rightarrow> Inr v)"
| "get_method data k dflt = Inl AttributeError"

section \<open>The API routes\<close>

definition error_response :: "exn \<Rightarrow> response" where
  "error_response e = (500, Json (JObj [(''error'', JStr (str_exn e))]))"

text \<open>\<^verbatim>\<open>GET /api/schedules\<close>\<close>

definition get_schedules :: "state \<Rightarrow> response \<times> state" where
  "get_schedules s =
     (case query_all s of
        Inl e \<Rightarrow> (error_response e, s)
      | Inr schedules \<Rightarrow> ((200, Json (JArr (map to_dict schedules))), s))"

text \<open>\<^verbatim>\<open>POST /api/schedules\<close>: the constructor call, then add and commit.\<close>

definition new_schedule :: "json \<Rightarrow> exn + pending" where
  "new_schedule data =
     and_then (getitem data ''date'') (\<lambda>d.
     and_then (getitem data ''user'') (\<lambda>u.
     and_then (get_method data ''checkInTime'' JNull) (\<lambda>c.
     and_then (get_method data ''exercised'' (JBool False)) (\<lambda>e.
     and_then (get_method data ''reflection'' JNull) (\<lambda>r.
       Inr (New d u c e r))))))"

definition add_schedule :: "state \<Rightarrow> json option \<Rightarrow> response \<times> state" where
  "add_schedule s b =
     (case and_then (request_json b) new_schedule of
        Inl e \<Rightarrow> (error_response e, s)
      | Inr obj \<Rightarrow>
         (case session_commit (session_add s obj) of
            (Inl e, s') \<Rightarrow> (error_response e, s')
          | (Inr ks, s') \<Rightarrow>
             (case refresh s' ks of
                Inl e \<Rightarrow> (error_response e, s')
              | Inr row \<Rightarrow> ((201, Json (to_dict row)), s'))))"

text \<open>
  \<^verbatim>\<open>PUT /api/schedules/<int:id>\<close>: the row is fetched first, then the body is read and the
  three attributes are assigned, each from the body or else from the row itself.
\<close>

definition assign :: "schedule \<Rightarrow> json \<Rightarrow> exn + pending" where
  "assign schedule data =
     and_then (get_method data ''checkInTime'' (opt_str (checkInTime schedule))) (\<lambda>c.
     and_then (get_method data ''exercised'' (opt_bool (exercised schedule))) (\<lambda>e.
     and_then (get_method data ''reflection'' (opt_str (reflection schedule))) (\<lambda>r.
       Inr (Dirty (id' schedule) c e r))))"

definition update_schedule :: "state \<Rightarrow> int \<Rightarrow> json option \<Rightarrow> response \<times> state" where
  "update_schedule s i b =
     (case and_then (get_or_404 s i) (\<lambda>schedule.
           and_then (request_json b) (assign schedule)) of
        Inl e \<Rightarrow> (error_response e, s)
      | Inr obj \<Rightarrow>
         (case session_commit (set_attributes s obj) of
            (Inl e, s') \<Rightarrow> (error_response e, s')
          | (Inr ks, s') \<Rightarrow>
             (case refresh s' ks of
                Inl e \<Rightarrow> (error_response e, s')
              | Inr row \<Rightarrow> ((200, Json (to_dict row)), s'))))"

text \<open>\<^verbatim>\<open>GET /api/schedules/<string:user>/<string:date>\<close>\<close>

definition get_schedule :: "state \<Rightarrow> string \<Rightarrow> string \<Rightarrow> response \<times> state" where
  "get_schedule s u d =
     (case query_all s of
        Inl e \<Rightarrow> (error_response e, s)
      | Inr rs \<Rightarrow>
         (case find (\<lambda>r. user r = u \<and> date r = d) rs of
            Some schedule \<Rightarrow> ((200, Json (to_dict schedule)), s)
          | None \<Rightarrow> ((404, Json (JObj [(''message'', JStr ''Schedule not found'')])), s)))"

text \<open>\<^verbatim>\<open>GET /api/schedules/<string:user>\<close>\<close>

definition get_user_schedules :: "state \<Rightarrow> string \<Rightarrow> response \<times> state" where
  "get_user_schedules s u =
     (case query_all s of
        Inl e \<Rightarrow> (error_response e, s)
      | Inr rs \<Rightarrow> ((200, Json (JArr (map to_dict (filter (\<lambda>r. user r = u) rs)))), s))"

text \<open>\<^verbatim>\<open>GET /test_db\<close>: a view that returns a string answers with status 200.\<close>

definition test_db :: "state \<Rightarrow> response \<times> state" where
  "test_db s =
     (case query_all s of
        Inr rs \<Rightarrow> ((200, Text ''Database connection successful''), s)
      | Inl e \<Rightarrow> ((200, Text (''Database connection failed: '' @ str_exn e)), s))"

section \<open>Static files and the error handlers\<close>

text \<open>
  The static folder \<^verbatim>\<open>./build\<close>: \<open>path_exists\<close> is
  \<^verbatim>\<open>os.path.exists(os.path.join(app.static_folder, path))\<close>, true of directories too;
  \<open>file_content\<close> gives the content of a regular file inside the folder, which is what
  \<^verbatim>\<open>send_from_directory\<close> serves (it raises 404 for anything else).
\<close>

record static_folder =
  path_exists :: "string \<Rightarrow> bool"
  file_content :: "string \<Rightarrow> string option"

definition send_from_directory :: "static_folder \<Rightarrow> string \<Rightarrow> exn + response" where
  "send_from_directory fs p =
     (case file_content fs p of None \<Rightarrow> Inl NotFound | Some c \<Rightarrow> Inr (200, File c))"

definition serve :: "static_folder \<Rightarrow> string \<Rightarrow> exn + response" where
  "serve fs path =
     (if path \<noteq> [] \<and> path_exists fs path then send_from_directory fs path
      else send_from_directory fs ''index.html'')"

definition not_found :: "static_folder \<Rightarrow> exn + response" where
  "not_found fs = send_from_directory fs ''index.html''"

definition internal_error :: "state \<Rightarrow> response \<times> state" where
  "internal_error s =
     ((500, Json (JObj [(''error'', JStr ''Internal server error'')])), session_rollback s)"

section \<open>Requests\<close>

text \<open>
  A request after routing. \<open>GET_static path\<close> is a GET whose path matches no API rule
  (the empty path is \<^verbatim>\<open>/\<close>); \<open>Unmatched\<close> is a request for which routing itself raises
  404. The route \<^verbatim>\<open>/api/download_db\<close> uses neither the session nor the static folder and is
  left out.
\<close>

datatype request =
    GET_schedules
  | POST_schedules "json option"
  | PUT_schedules int "json option"
  | GET_schedule string string
  | GET_user_schedules string
  | GET_test_db
  | GET_static string
  | Unmatched

fun view :: "static_folder \<Rightarrow> state \<Rightarrow> request \<Rightarrow> (exn + response) \<times> state" where
  "view fs s GET_schedules = (case get_schedules s of (r, s') \<Rightarrow> (Inr r, s'))"
| "view fs s (POST_schedules b) = (case add_schedule s b of (r, s') \<Rightarrow> (Inr r, s'))"
| "view fs s (PUT_schedules i b) = (case update_schedule s i b of (r, s') \<Rightarrow> (Inr r, s'))"
| "view fs s (GET_schedule u d) = (case get_schedule s u d of (r, s') \<Rightarrow> (Inr r, s'))"
| "view fs s (GET_user_schedules u) = (case get_user_schedules s u of (r, s') \<Rightarrow> (Inr r, s'))"
| "view fs s GET_test_db = (case test_db s of (r, s') \<Rightarrow> (Inr r, s'))"
| "view fs s (GET_static path) = (serve fs path, s)"
| "view fs s Unmatched = (Inl NotFound, s)"

text \<open>
  Flask-SQLAlchemy gives every request a session of its own. A 404 raised by routing or by
  a view goes to \<open>not_found\<close>; any other exception, and an exception raised by
  \<open>not_found\<close> itself, goes to \<open>internal_error\<close>. The state returned is the one at the
  moment the response is ready.
\<close>

definition new_session :: "state \<Rightarrow> state" where
  "new_session s = s\<lparr>staged := [], needs_rollback := False\<rparr>"

definition handle :: "static_folder \<Rightarrow> state \<Rightarrow> request \<Rightarrow> response \<times> state" where
  "handle fs s req =
     (case view fs (new_session s) req of
        (Inr r, s') \<Rightarrow> (r, s')
      | (Inl e, s') \<Rightarrow>
          (if e = NotFound
           then (case not_found fs of Inr r \<Rightarrow> (r, s') | Inl x \<Rightarrow> internal_error s')
           else internal_error s'))"

fun run :: "static_folder \<Rightarrow> state \<Rightarrow> request list \<Rightarrow> response list \<times> state" where
  "run fs s [] = ([], s)"
| "run fs s (req # reqs) =
     (case handle fs s req of (r, s1) \<Rightarrow>
        (case run fs s1 reqs of (rs, s2) \<Rightarrow> (r # rs, s2)))"

section \<open>Notions used in the statements\<close>

text \<open>Whether a request body is a JSON object with the given key.\<close>

definition has_key :: "json option \<Rightarrow> string \<Rightarrow> bool" where
  "has_key b k = (case b of Some (JObj kvs) \<Rightarrow> map_of kvs k \<noteq> None | _ \<Rightarrow> False)"

text \<open>
  The JSON types of the columns: a string column takes a string or null, the boolean
  column a boolean or null. \<open>field_ok P kvs k\<close> holds when key \<open>k\<close> is absent from the
  object or its value satisfies \<open>P\<close>.
\<close>

definition is_text :: "json \<Rightarrow> bool" where
  "is_text v = (case v of JNull \<Rightarrow> True | JStr s \<Rightarrow> True | _ \<Rightarrow> False)"

definition is_boolean :: "json \<Rightarrow> bool" where
  "is_boolean v = (case v of JBool b \<Rightarrow> True | _ \<Rightarrow> False)"

definition is_boolean_or_null :: "json \<Rightarrow> bool" where
  "is_boolean_or_null v = (case v of JNull \<Rightarrow> True | JBool b \<Rightarrow> True | _ \<Rightarrow> False)"

definition field_ok :: "(json \<Rightarrow> bool) \<Rightarrow> (string \<times> json) list \<Rightarrow> string \<Rightarrow> bool" where
  "field_ok P kvs k = (case map_of kvs k of None \<Rightarrow> True | Some v \<Rightarrow> P v)"

text \<open>The value a field is expected to have: the supplied one, or else the given one.\<close>

definition supplied_or :: "(string \<times> json) list \<Rightarrow> string \<Rightarrow> json \<Rightarrow> json" where
  "supplied_or kvs k other = (case map_of kvs k of None \<Rightarrow> other | Some v \<Rightarrow> v)"

text \<open>
  \<open>overwritten kvs x x'\<close>: record \<open>x'\<close> is record \<open>x\<close> with exactly the fields supplied in
  \<open>kvs\<close> overwritten, among \<^verbatim>\<open>checkInTime\<close>, \<^verbatim>\<open>exercised\<close> and \<^verbatim>\<open>reflection\<close>.
\<close>

definition overwritten :: "(string \<times> json) list \<Rightarrow> schedule \<Rightarrow> schedule \<Rightarrow> bool" where
  "overwritten kvs x x' =
     (id' x' = id' x \<and> date x' = date x \<and> user x' = user x \<and>
      opt_str (checkInTime x') = supplied_or kvs ''checkInTime'' (opt_str (checkInTime x)) \<and>
      opt_bool (exercised x') = supplied_or kvs ''exercised'' (opt_bool (exercised x)) \<and>
      opt_str (reflection x') = supplied_or kvs ''reflection'' (opt_str (reflection x)))"

text \<open>
  \<open>updated kvs x x'\<close>: record \<open>x'\<close> is record \<open>x\<close> in which every field omitted from
  \<open>kvs\<close> keeps its value and every supplied field holds the supplied value as its column
  stores it.
\<close>

definition updated :: "(string \<times> json) list \<Rightarrow> schedule \<Rightarrow> schedule \<Rightarrow> bool" where
  "updated kvs x x' =
     (id' x' = id' x \<and> date x' = date x \<and> user x' = user x \<and>
      (case map_of kvs ''checkInTime'' of
         None \<Rightarrow> checkInTime x' = checkInTime x
       | Some v \<Rightarrow> bind_text v = Inr (checkInTime x')) \<and>
      (case map_of kvs ''exercised'' of
         None \<Rightarrow> exercised x' = exercised x
       | Some v \<Rightarrow> bind_bool v = Inr (exercised x')) \<and>
      (case map_of kvs ''reflection'' of
         None \<Rightarrow> reflection x' = reflection x
       | Some v \<Rightarrow> bind_text v = Inr (reflection x')))"

text \<open>The id that a response announces as created: that of the record in a 201 answer.\<close>

definition created :: "response \<Rightarrow> int list" where
  "created r =
     (case r of
        (st, Json (JObj ((k, JInt i) # kvs))) \<Rightarrow> (if st = 201 \<and> k = ''id'' then [i] else [])
      | _ \<Rightarrow> [])"

text \<open>Whether a request is one of the two that write.\<close>

fun mutating :: "request \<Rightarrow> bool" where
  "mutating (POST_schedules b) = True"
| "mutating (PUT_schedules i b) = True"
| "mutating req = False"

text \<open>States and static folders for the examples.\<close>

definition alice :: schedule where
  "alice = \<lparr>id' = 1, date = ''2024-01-01'', user = ''alice'', checkInTime = None,
            exercised = Some False, reflection = None\<rparr>"

definition bob :: schedule where
  "bob = \<lparr>id' = 2, date = ''2024-01-01'', user = ''bob'', checkInTime = Some ''09:30'',
          exercised = Some True, reflection = Some ''ran''\<rparr>"

definition empty_db :: state where
  "empty_db = \<lparr>rows = [], available = True, staged = [], needs_rollback = False\<rparr>"

definition two_rows :: state where
  "two_rows = \<lparr>rows = [alice, bob], available = True, staged = [], needs_rollback = False\<rparr>"

definition offline :: state where
  "offline = \<lparr>rows = [alice, bob], available = False, staged = [], needs_rollback = False\<rparr>"

definition build :: static_folder where
  "build = \<lparr>path_exists = (\<lambda>p. p = ''index.html'' \<or> p = ''static''),
            file_content = (\<lambda>p. if p = ''index.html'' then Some ''<html></html>'' else None)\<rparr>"

definition new_entry :: "json option" where
  "new_entry = Some (JObj [(''date'', JStr ''2024-01-02''), (''user'', JStr ''alice'')])"

definition null_date :: "json option" where
  "null_date = Some (JObj [(''date'', JNull), (''user'', JStr ''alice'')])"

definition exercised_yes :: "json option" where
  "exercised_yes = Some (JObj [(''exercised'', JStr ''yes'')])"

definition three_requests :: "request list" where
  "three_requests =
     [POST_schedules new_entry,
      PUT_schedules 3 (Some (JObj [(''exercised'', JBool True)])),
      POST_schedules new_entry]"

section \<open>Facts about the session and the store\<close>

lemma and_then_Inl [simp]: "and_then (Inl e) f = Inl e"
  by (simp add: and_then_def)

lemma and_then_Inr [simp]: "and_then (Inr v) f = f v"
  by (simp add: and_then_def)

lemma and_then_eq_Inr: "and_then m f = Inr y \<longleftrightarrow> (\<exists>v. m = Inr v \<and> f v = Inr y)"
  by (cases m) simp_all

lemma new_session_sel [simp]:
  "rows (new_session s) = rows s" "available (new_session s) = available s"
  "staged (new_session s) = []" "needs_rollback (new_session s) = False"
  by (simp_all add: new_session_def)

lemma query_all_new_session:
  "query_all (new_session s) = (if available s then Inr (rows s) else Inl OperationalError)"
  by (simp add: query_all_def)

lemma fst_error_response [simp]: "fst (error_response e) = 500"
  by (simp add: error_response_def)

text \<open>The id given to a new row is larger than every id in the table.\<close>

lemma fold_max_ge: "x \<in> set (i # js) \<Longrightarrow> x \<le> fold max js (i::int)"
proof -
  assume "x \<in> set (i # js)"
  then have "x \<le> Max (set (i # js))" by (intro Max_ge) auto
  then show ?thesis by (simp only: Max.set_eq_fold)
qed

lemma next_id_fresh: "next_id rs \<notin> set (map id' rs)"
proof
  assume a: "next_id rs \<in> set (map id' rs)"
  then obtain i js where ij: "map id' rs = i # js" by (cases "map id' rs") auto
  with a have "next_id rs \<le> fold max js i" using fold_max_ge[of "next_id rs" i js] by simp
  with ij show False by (simp add: next_id_def)
qed

lemma find_append_fresh:
  "k \<notin> set (map id' rs) \<Longrightarrow> id' row = k \<Longrightarrow> find (\<lambda>r. id' r = k) (rs @ [row]) = Some row"
  by (induction rs) auto

lemma find_id_mem:
  "i \<in> set (map id' rs) \<Longrightarrow> \<exists>r. find (\<lambda>r. id' r = i) rs = Some r \<and> r \<in> set rs \<and> id' r = i"
  by (induction rs) auto

lemma flush_one_New:
  "flush_one rs (New d u c e r) = Inr (rs', k) \<Longrightarrow>
     \<exists>row. rs' = rs @ [row] \<and> k = next_id rs \<and> id' row = next_id rs"
  by (auto simp: and_then_eq_Inr)

lemma flush_one_Dirty:
  "flush_one rs (Dirty i c e r) = Inr (rs', k) \<Longrightarrow>
     map id' rs' = map id' rs \<and> map date rs' = map date rs \<and> map user rs' = map user rs \<and>
     k = i \<and> i \<in> set (map id' rs)"
  by (auto simp: and_then_eq_Inr split: if_splits)

text \<open>The commit of the one object staged in the session of a request.\<close>

lemma commit_single:
  "session_commit (session_add (new_session s) p) =
     (if \<not> available s
      then (Inl OperationalError, (new_session s)\<lparr>needs_rollback := True\<rparr>)
      else case flush_one (rows s) p of
             Inl x \<Rightarrow> (Inl x, (new_session s)\<lparr>needs_rollback := True\<rparr>)
           | Inr (rs, k) \<Rightarrow> (Inr [k], (new_session s)\<lparr>rows := rs\<rparr>))"
  by (auto simp: session_commit_def session_add_def new_session_def split: sum.splits)

lemma commit_single_attributes:
  "session_commit (set_attributes (new_session s) p) =
   session_commit (session_add (new_session s) p)"
  by (simp add: set_attributes_def session_add_def)

lemma refresh_single:
  "refresh ((new_session s)\<lparr>rows := rs\<rparr>) [k] =
     (if available s
      then (case find (\<lambda>r. id' r = k) rs of None \<Rightarrow> Inl ObjectDeletedError | Some r \<Rightarrow> Inr r)
      else Inl OperationalError)"
  by (simp add: refresh_def query_all_def new_session_def)

section \<open>The two writing routes, step by step\<close>

lemma new_schedule_New:
  "and_then (request_json b) new_schedule = Inr obj \<Longrightarrow> \<exists>d u c e r. obj = New d u c e r"
  by (auto simp: new_schedule_def and_then_eq_Inr)

lemma assign_Dirty: "assign sch data = Inr obj \<Longrightarrow> \<exists>c e r. obj = Dirty (id' sch) c e r"
  by (auto simp: assign_def and_then_eq_Inr)

lemma handle_POST: "handle fs s (POST_schedules b) = add_schedule (new_session s) b"
  by (simp add: handle_def split: prod.splits)

lemma handle_PUT: "handle fs s (PUT_schedules i b) = update_schedule (new_session s) i b"
  by (simp add: handle_def split: prod.splits)

lemma add_schedule_new_session:
  "add_schedule (new_session s) b =
     (case and_then (request_json b) new_schedule of
        Inl e \<Rightarrow> (error_response e, new_session s)
      | Inr obj \<Rightarrow>
          (if \<not> available s
           then (error_response OperationalError, (new_session s)\<lparr>needs_rollback := True\<rparr>)
           else case flush_one (rows s) obj of
                  Inl x \<Rightarrow> (error_response x, (new_session s)\<lparr>needs_rollback := True\<rparr>)
                | Inr (rs, k) \<Rightarrow>
                    (case find (\<lambda>r. id' r = k) rs of
                       None \<Rightarrow> (error_response ObjectDeletedError, (new_session s)\<lparr>rows := rs\<rparr>)
                     | Some row \<Rightarrow> ((201, Json (to_dict row)), (new_session s)\<lparr>rows := rs\<rparr>))))"
  by (simp add: add_schedule_def commit_single refresh_single
           split: sum.splits prod.splits option.splits)

lemma update_schedule_new_session:
  "update_schedule (new_session s) i b =
     (case and_then (get_or_404 (new_session s) i)
             (\<lambda>schedule. and_then (request_json b) (assign schedule)) of
        Inl e \<Rightarrow> (error_response e, new_session s)
      | Inr obj \<Rightarrow>
          (if \<not> available s
           then (error_response OperationalError, (new_session s)\<lparr>needs_rollback := True\<rparr>)
           else case flush_one (rows s) obj of
                  Inl x \<Rightarrow> (error_response x, (new_session s)\<lparr>needs_rollback := True\<rparr>)
                | Inr (rs, k) \<Rightarrow>
                    (case find (\<lambda>r. id' r = k) rs of
                       None \<Rightarrow> (error_response ObjectDeletedError, (new_session s)\<lparr>rows := rs\<rparr>)
                     | Some row \<Rightarrow> ((200, Json (to_dict row)), (new_session s)\<lparr>rows := rs\<rparr>))))"
  by (simp add: update_schedule_def commit_single commit_single_attributes refresh_single
           split: sum.splits prod.splits option.splits)

lemma add_schedule_outcome:
  assumes "add_schedule (new_session s) b = (r, s')"
  shows "(fst r = 500 \<and> rows s' = rows s \<and> staged s' = []) \<or>
         (\<exists>row. r = (201, Json (to_dict row)) \<and> id' row = next_id (rows s) \<and>
                s' = (new_session s)\<lparr>rows := rows s @ [row]\<rparr>)"
proof (cases "and_then (request_json b) new_schedule")
  case (Inl e)
  with assms show ?thesis by (auto simp: add_schedule_new_session)
next
  case (Inr obj)
  then obtain d u c e r where obj: "obj = New d u c e r" using new_schedule_New by blast
  show ?thesis
  proof (cases "flush_one (rows s) obj")
    case (Inl x)
    with assms Inr show ?thesis
      by (auto simp: add_schedule_new_session split: if_splits)
  next
    case (Inr p)
    obtain rs k where p: "p = (rs, k)" by (cases p)
    with Inr obj obtain row
      where row: "rs = rows s @ [row]" "k = next_id (rows s)" "id' row = next_id (rows s)"
      using flush_one_New by blast
    have "find (\<lambda>r. id' r = k) rs = Some row"
      using row next_id_fresh[of "rows s"] by (simp add: find_append_fresh)
    with assms \<open>and_then (request_json b) new_schedule = Inr obj\<close> Inr p row show ?thesis
      by (auto simp: add_schedule_new_session split: if_splits)
  qed
qed

lemma update_schedule_outcome:
  assumes "update_schedule (new_session s) i b = (r, s')"
  shows "(fst r = 500 \<and> rows s' = rows s \<and> staged s' = []) \<or>
         (\<exists>row. r = (200, Json (to_dict row)) \<and> map id' (rows s') = map id' (rows s) \<and>
                map date (rows s') = map date (rows s) \<and>
                map user (rows s') = map user (rows s) \<and> staged s' = [])"
proof (cases "and_then (get_or_404 (new_session s) i)
                (\<lambda>schedule. and_then (request_json b) (assign schedule))")
  case (Inl e)
  with assms show ?thesis by (auto simp: update_schedule_new_session)
next
  case (Inr obj)
  note body = this
  then obtain sch data
    where sch: "get_or_404 (new_session s) i = Inr sch" and "assign sch data = Inr obj"
    by (auto simp: and_then_eq_Inr)
  then obtain c e rf where obj: "obj = Dirty (id' sch) c e rf"
    using assign_Dirty by blast
  from sch have av: "available s" and idi: "id' sch = i"
    by (auto simp: get_or_404_def query_all_new_session and_then_eq_Inr find_Some_iff
             split: if_splits option.splits)
  show ?thesis
  proof (cases "flush_one (rows s) obj")
    case (Inl x)
    with assms body av show ?thesis
      by (auto simp: update_schedule_new_session)
  next
    case (Inr p)
    obtain rs k where p: "p = (rs, k)" by (cases p)
    with Inr obj idi have fl: "flush_one (rows s) (Dirty i c e rf) = Inr (rs, k)" by simp
    from flush_one_Dirty[OF fl]
    have k: "k = i" and "i \<in> set (map id' (rows s))"
      and keep: "map id' rs = map id' (rows s)" "map date rs = map date (rows s)"
        "map user rs = map user (rows s)"
      by auto
    then have mem: "i \<in> set (map id' rs)" by simp
    from find_id_mem[OF mem] obtain row where "find (\<lambda>r. id' r = i) rs = Some row" by blast
    with assms body av Inr p k keep obj idi show ?thesis
      by (auto simp: update_schedule_new_session simp del: flush_one.simps)
  qed
qed

section \<open>The claims\<close>

text \<open>
  C10. The route \<^verbatim>\<open>GET /test_db\<close> always answers with status 200: with the plain text
  \<^verbatim>\<open>Database connection successful\<close> when the probe query succeeds, and with a plain text
  that begins with \<^verbatim>\<open>Database connection failed: \<close> (still status 200) when the query
  raises. The stored rows are not touched.
\<close>

theorem test_db_answers_200:
  "handle fs s GET_test_db =
     ((200, Text (if available s then ''Database connection successful''
                  else ''Database connection failed: '' @ str_exn OperationalError)),
      new_session s)"
  by (simp add: handle_def test_db_def query_all_new_session)

theorem test_db_answers_200_witness:
  "fst (handle build two_rows GET_test_db) = (200, Text ''Database connection successful'') \<and>
   fst (fst (handle build offline GET_test_db)) = 200 \<and>
   (\<exists>m. snd (fst (handle build offline GET_test_db)) = Text (''Database connection failed: '' @ m))"
  using test_db_answers_200 [of build two_rows] test_db_answers_200 [of build offline]
  by (simp add: two_rows_def offline_def)

text \<open>
  C5. While the database can be read: when no stored record has both the given user and
  the given date, \<^verbatim>\<open>GET /api/schedules/<user>/<date>\<close> answers 404 with exactly the body
  \<^verbatim>\<open>{"message": "Schedule not found"}\<close>; when such a record exists it answers 200 with
  a record of that user and date (the first one in the table). The rows stay as they are.
\<close>

theorem get_schedule_found_or_404:
  assumes "available s"
  shows "((\<forall>r \<in> set (rows s). \<not> (user r = u \<and> date r = d)) \<longrightarrow>
            fst (handle fs s (GET_schedule u d)) =
              (404, Json (JObj [(''message'', JStr ''Schedule not found'')]))) \<and>
         ((\<exists>r \<in> set (rows s). user r = u \<and> date r = d) \<longrightarrow>
            (\<exists>r \<in> set (rows s). user r = u \<and> date r = d \<and>
               fst (handle fs s (GET_schedule u d)) = (200, Json (to_dict r)))) \<and>
         rows (snd (handle fs s (GET_schedule u d))) = rows s"
proof -
  have h: "handle fs s (GET_schedule u d) =
      (case find (\<lambda>r. user r = u \<and> date r = d) (rows s) of
         Some schedule \<Rightarrow> ((200, Json (to_dict schedule)), new_session s)
       | None \<Rightarrow> ((404, Json (JObj [(''message'', JStr ''Schedule not found'')])), new_session s))"
    using assms by (simp add: handle_def get_schedule_def query_all_new_session split: option.splits)
  show ?thesis
  proof (cases "find (\<lambda>r. user r = u \<and> date r = d) (rows s)")
    case None
    then have no: "\<not> (\<exists>r \<in> set (rows s). user r = u \<and> date r = d)"
      by (simp add: find_None_iff)
    from h None have "handle fs s (GET_schedule u d) =
        ((404, Json (JObj [(''message'', JStr ''Schedule not found'')])), new_session s)"
      by simp
    with no show ?thesis by simp
  next
    case (Some r)
    then have r: "r \<in> set (rows s)" "user r = u" "date r = d"
      by (auto simp: find_Some_iff)
    from h Some have "handle fs s (GET_schedule u d) = ((200, Json (to_dict r)), new_session s)"
      by simp
    with r show ?thesis by auto
  qed
qed

theorem get_schedule_found_or_404_witness:
  "fst (handle build two_rows (GET_schedule ''alice'' ''2024-01-02'')) =
     (404, Json (JObj [(''message'', JStr ''Schedule not found'')])) \<and>
   fst (handle build two_rows (GET_schedule ''bob'' ''2024-01-01'')) = (200, Json (to_dict bob))"
proof -
  have av: "available two_rows" by (simp add: two_rows_def)
  have no: "\<forall>r \<in> set (rows two_rows). \<not> (user r = ''alice'' \<and> date r = ''2024-01-02'')"
    by (simp add: two_rows_def alice_def bob_def)
  have yes: "\<exists>r \<in> set (rows two_rows). user r = ''bob'' \<and> date r = ''2024-01-01''"
    by (simp add: two_rows_def alice_def bob_def)
  from get_schedule_found_or_404 [OF av, of "''alice''" "''2024-01-02''" build] no
  have a: "fst (handle build two_rows (GET_schedule ''alice'' ''2024-01-02'')) =
     (404, Json (JObj [(''message'', JStr ''Schedule not found'')]))" by blast
  from get_schedule_found_or_404 [OF av, of "''bob''" "''2024-01-01''" build] yes
  obtain r where "r \<in> set (rows two_rows)" "user r = ''bob''"
    "fst (handle build two_rows (GET_schedule ''bob'' ''2024-01-01'')) = (200, Json (to_dict r))"
    by blast
  then have b: "fst (handle build two_rows (GET_schedule ''bob'' ''2024-01-01'')) = (200, Json (to_dict bob))"
    by (auto simp: two_rows_def alice_def bob_def)
  from a b show ?thesis by simp
qed

text \<open>
  C6. While the database can be read, \<^verbatim>\<open>GET /api/schedules/<user>\<close> answers 200 with a
  JSON array that holds all and only the stored records whose user is the given string,
  whatever their date: the array lists those records in table order, so a record is in it
  exactly when it is stored with that user.
\<close>

theorem get_user_schedules_all_and_only:
  assumes "available s"
  shows "\<exists>items. fst (handle fs s (GET_user_schedules u)) = (200, Json (JArr items)) \<and>
           items = map to_dict (filter (\<lambda>r. user r = u) (rows s)) \<and>
           (\<forall>r. to_dict r \<in> set items \<longleftrightarrow> r \<in> set (rows s) \<and> user r = u)"
proof -
  have inj: "to_dict a = to_dict b \<Longrightarrow> a = b" for a b
    by (cases a, cases b)
       (auto simp: to_dict_def opt_str_def opt_bool_def split: option.splits)
  have "fst (handle fs s (GET_user_schedules u)) =
          (200, Json (JArr (map to_dict (filter (\<lambda>r. user r = u) (rows s)))))"
    using assms by (simp add: handle_def get_user_schedules_def query_all_new_session)
  moreover have "to_dict r \<in> set (map to_dict (filter (\<lambda>r. user r = u) (rows s))) \<longleftrightarrow>
                 r \<in> set (rows s) \<and> user r = u" for r
    using inj by auto
  ultimately show ?thesis by blast
qed

theorem get_user_schedules_all_and_only_witness:
  "fst (handle build two_rows (GET_user_schedules ''alice'')) = (200, Json (JArr [to_dict alice]))"
proof -
  have av: "available two_rows" by (simp add: two_rows_def)
  from get_user_schedules_all_and_only [OF av, of build "''alice''"]
  show ?thesis by (simp add: two_rows_def alice_def bob_def)
qed

text \<open>
  C3. For every id that matches no stored record, \<^verbatim>\<open>PUT /api/schedules/<id>\<close> answers with
  status 500 (not 404) and a JSON body with the key \<^verbatim>\<open>error\<close>, whatever the body of the
  request; no record is created and the stored rows stay as they are. The missing row is
  reported in the same way as any other failure.
\<close>

theorem update_unknown_id_is_500:
  assumes "i \<notin> set (map id' (rows s))"
  shows "fst (fst (handle fs s (PUT_schedules i b))) = 500 \<and>
         (\<exists>m. snd (fst (handle fs s (PUT_schedules i b))) = Json (JObj [(''error'', JStr m)])) \<and>
         rows (snd (handle fs s (PUT_schedules i b))) = rows s"
proof -
  have "find (\<lambda>r. id' r = i) (rows s) = None"
    using assms by (auto simp: find_None_iff)
  then have "\<exists>e. get_or_404 (new_session s) i = Inl e"
    by (simp add: get_or_404_def query_all_new_session)
  then obtain e where "get_or_404 (new_session s) i = Inl e" ..
  then have "handle fs s (PUT_schedules i b) = (error_response e, new_session s)"
    by (simp add: handle_PUT update_schedule_new_session)
  then show ?thesis by (simp add: error_response_def)
qed

theorem update_unknown_id_is_500_witness:
  "fst (fst (handle build two_rows (PUT_schedules 7 (Some (JObj [(''exercised'', JBool True)]))))) =
     500 \<and>
   rows (snd (handle build two_rows (PUT_schedules 7 (Some (JObj [(''exercised'', JBool True)]))))) =
     [alice, bob]"
proof -
  have no: "7 \<notin> set (map id' (rows two_rows))"
    by (simp add: two_rows_def alice_def bob_def)
  from update_unknown_id_is_500 [OF no, of build "Some (JObj [(''exercised'', JBool True)])"]
  show ?thesis by (simp add: two_rows_def)
qed

text \<open>
  C4. When the body of \<^verbatim>\<open>POST /api/schedules\<close> lacks the key \<^verbatim>\<open>date\<close> or the key
  \<^verbatim>\<open>user\<close> (a body that is no JSON object has neither), the answer has status 500 and
  a JSON body with the key \<^verbatim>\<open>error\<close>, and no record is persisted: the stored rows stay
  as they are.
\<close>

theorem add_without_date_or_user_is_500:
  assumes "\<not> has_key b ''date'' \<or> \<not> has_key b ''user''"
  shows "fst (fst (handle fs s (POST_schedules b))) = 500 \<and>
         (\<exists>m. snd (fst (handle fs s (POST_schedules b))) = Json (JObj [(''error'', JStr m)])) \<and>
         rows (snd (handle fs s (POST_schedules b))) = rows s"
proof -
  have "\<exists>e. and_then (request_json b) new_schedule = Inl e"
  proof (cases b)
    case None
    then show ?thesis by (simp add: request_json_def)
  next
    case (Some data)
    show ?thesis
    proof (cases data)
      case (JObj kvs)
      with Some assms have "map_of kvs ''date'' = None \<or> map_of kvs ''user'' = None"
        by (simp add: has_key_def)
      with Some JObj show ?thesis
        by (cases "map_of kvs ''date''") (auto simp: request_json_def new_schedule_def)
    qed (simp_all add: Some request_json_def new_schedule_def)
  qed
  then obtain e where "and_then (request_json b) new_schedule = Inl e" ..
  then have "handle fs s (POST_schedules b) = (error_response e, new_session s)"
    by (simp add: handle_POST add_schedule_new_session)
  then show ?thesis by (simp add: error_response_def)
qed

theorem add_without_date_or_user_is_500_witness:
  "fst (fst (handle build two_rows (POST_schedules (Some (JObj [(''user'', JStr ''carol'')]))))) = 500 \<and>
   rows (snd (handle build two_rows (POST_schedules (Some (JObj [(''user'', JStr ''carol'')]))))) =
     [alice, bob]"
proof -
  have lacks: "\<not> has_key (Some (JObj [(''user'', JStr ''carol'')])) ''date'' \<or>
               \<not> has_key (Some (JObj [(''user'', JStr ''carol'')])) ''user''"
    by (simp add: has_key_def)
  from add_without_date_or_user_is_500 [OF lacks, of build two_rows]
  show ?thesis by (simp add: two_rows_def)
qed

text \<open>
  C9. When a GET path names no existing file under the static folder, the response is the
  one given for \<^verbatim>\<open>GET /\<close>, the file \<^verbatim>\<open>index.html\<close> (also when the path names a
  directory, which \<^verbatim>\<open>send_from_directory\<close> refuses with a 404 that the 404 handler
  answers). A request that matches no route is answered by the 404 handler with this same
  response, not with a JSON error.
\<close>

theorem unknown_path_serves_index:
  assumes "file_content fs path = None"
  shows "handle fs s (GET_static path) = handle fs s (GET_static []) \<and>
         handle fs s Unmatched = handle fs s (GET_static [])"
proof -
  have root: "handle fs s (GET_static []) =
      (case send_from_directory fs ''index.html'' of
         Inr r \<Rightarrow> (r, new_session s) | Inl x \<Rightarrow> internal_error (new_session s))"
    by (simp add: handle_def serve_def not_found_def send_from_directory_def
             split: option.splits)
  have miss: "send_from_directory fs path = Inl NotFound"
    using assms by (simp add: send_from_directory_def)
  have "handle fs s (GET_static path) =
      (case send_from_directory fs ''index.html'' of
         Inr r \<Rightarrow> (r, new_session s) | Inl x \<Rightarrow> internal_error (new_session s))"
    using miss
    by (simp add: handle_def serve_def not_found_def send_from_directory_def
             split: option.splits)
  moreover have "handle fs s Unmatched =
      (case send_from_directory fs ''index.html'' of
         Inr r \<Rightarrow> (r, new_session s) | Inl x \<Rightarrow> internal_error (new_session s))"
    by (simp add: handle_def not_found_def split: sum.splits)
  ultimately show ?thesis using root by simp
qed

theorem unknown_path_serves_index_witness:
  "fst (handle build two_rows (GET_static ''about'')) = (200, File ''<html></html>'') \<and>
   fst (handle build two_rows (GET_static ''static'')) = (200, File ''<html></html>'') \<and>
   fst (handle build two_rows Unmatched) = (200, File ''<html></html>'') \<and>
   fst (handle build two_rows (GET_static [])) = (200, File ''<html></html>'')"
proof -
  have a: "file_content build ''about'' = None" by (simp add: build_def)
  have b: "file_content build ''static'' = None" by (simp add: build_def)
  have root: "fst (handle build two_rows (GET_static [])) = (200, File ''<html></html>'')"
    by (simp add: handle_def serve_def send_from_directory_def build_def)
  from unknown_path_serves_index [OF a, of two_rows] unknown_path_serves_index [OF b, of two_rows] root
  show ?thesis by simp
qed

lemma created_not_201: "fst r \<noteq> 201 \<Longrightarrow> created r = []"
  by (cases r) (auto simp: created_def split: body.splits json.splits list.splits prod.splits)

lemma created_to_dict: "created (201, Json (to_dict row)) = [id' row]"
  by (simp add: created_def to_dict_def)

lemma reading_keeps_rows:
  assumes "\<not> mutating req"
  shows "fst (fst (handle fs s req)) \<noteq> 201 \<and> rows (snd (handle fs s req)) = rows s"
proof (cases req)
  case GET_schedules
  then show ?thesis
    by (simp add: handle_def get_schedules_def query_all_new_session error_response_def)
next
  case (GET_schedule u d)
  then show ?thesis
    by (simp add: handle_def get_schedule_def query_all_new_session error_response_def
             split: option.splits)
next
  case (GET_user_schedules u)
  then show ?thesis
    by (simp add: handle_def get_user_schedules_def query_all_new_session error_response_def)
next
  case GET_test_db
  then show ?thesis
    by (simp add: handle_def test_db_def query_all_new_session)
next
  case (GET_static path)
  then show ?thesis
    by (simp add: handle_def serve_def not_found_def send_from_directory_def internal_error_def
          session_rollback_def split: option.splits)
next
  case Unmatched
  then show ?thesis
    by (simp add: handle_def not_found_def send_from_directory_def internal_error_def
          session_rollback_def split: option.splits)
qed (use assms in simp_all)

lemma handle_ids:
  "map id' (rows (snd (handle fs s req))) = map id' (rows s) @ created (fst (handle fs s req)) \<and>
   (created (fst (handle fs s req)) = [] \<or> created (fst (handle fs s req)) = [next_id (rows s)])"
proof (cases req)
  case (POST_schedules b)
  obtain r s' where eq: "add_schedule (new_session s) b = (r, s')"
    by (cases "add_schedule (new_session s) b")
  from add_schedule_outcome [OF eq] show ?thesis
    using eq POST_schedules
    by (auto simp: handle_POST created_not_201 created_to_dict)
next
  case (PUT_schedules i b)
  obtain r s' where eq: "update_schedule (new_session s) i b = (r, s')"
    by (cases "update_schedule (new_session s) i b")
  from update_schedule_outcome [OF eq] show ?thesis
    using eq PUT_schedules
    by (auto simp: handle_PUT created_not_201)
qed (use reading_keeps_rows [of req fs s] in \<open>simp_all add: created_not_201\<close>)

text \<open>
  C7. Starting from a table whose ids are distinct (the primary key), after any sequence
  of requests the ids in the table are the ids that were there before, in their places,
  followed by the ids announced by the 201 answers of the sequence, in order, and all of
  them are distinct. So every successful insert receives an id that no earlier record has,
  two creates never receive the same id, and no id is ever changed or given again.
\<close>

theorem created_ids_fresh_and_stable:
  assumes "distinct (map id' (rows s))"
  shows "map id' (rows (snd (run fs s reqs))) =
           map id' (rows s) @ concat (map created (fst (run fs s reqs))) \<and>
         distinct (map id' (rows (snd (run fs s reqs))))"
  using assms
proof (induction reqs arbitrary: s)
  case Nil
  then show ?case by simp
next
  case (Cons req reqs)
  obtain r s1 where h: "handle fs s req = (r, s1)" by (cases "handle fs s req")
  from handle_ids [of fs s req] h
  have ids: "map id' (rows s1) = map id' (rows s) @ created r"
    and one: "created r = [] \<or> created r = [next_id (rows s)]"
    by simp_all
  have d1: "distinct (map id' (rows s1))"
    using one
  proof
    assume "created r = []"
    with ids Cons.prems show ?thesis by simp
  next
    assume "created r = [next_id (rows s)]"
    with ids Cons.prems next_id_fresh [of "rows s"] show ?thesis
      by (simp del: set_map)
  qed
  obtain rs s2 where t: "run fs s1 reqs = (rs, s2)" by (cases "run fs s1 reqs")
  note ih = Cons.IH [OF d1, THEN conjunct1] Cons.IH [OF d1, THEN conjunct2]
  from ih t have a: "map id' (rows s2) = map id' (rows s1) @ concat (map created rs)"
    and b: "distinct (map id' (rows s2))"
    by simp_all
  from h t have "run fs s (req # reqs) = (r # rs, s2)" by simp
  with a b ids show ?case by simp
qed

theorem created_ids_fresh_and_stable_witness:
  "map id' (rows (snd (run build two_rows three_requests))) = [1, 2, 3, 4]"
proof -
  have d: "distinct (map id' (rows two_rows))"
    by (simp add: two_rows_def alice_def bob_def)
  have r: "map id' (rows two_rows) = [1, 2]"
    by (simp add: two_rows_def alice_def bob_def)
  have c: "map created (fst (run build two_rows three_requests)) = [[3], [], [4]]"
    by code_simp
  from created_ids_fresh_and_stable [OF d, of build three_requests]
  have "map id' (rows (snd (run build two_rows three_requests))) =
          map id' (rows two_rows) @ concat (map created (fst (run build two_rows three_requests)))"
    by (rule conjunct1)
  then show ?thesis by (simp add: c r)
qed

lemma bind_text_ok: "is_text v \<Longrightarrow> \<exists>c. bind_text v = Inr c \<and> opt_str c = v"
  by (cases v) (simp_all add: is_text_def opt_str_def)

lemma bind_bool_ok: "is_boolean_or_null v \<Longrightarrow> \<exists>c. bind_bool v = Inr c \<and> opt_bool c = v"
  by (cases v) (simp_all add: is_boolean_or_null_def opt_bool_def)

lemma is_text_supplied_or:
  "field_ok is_text kvs k \<Longrightarrow> is_text (supplied_or kvs k (opt_str c))"
  by (auto simp: field_ok_def supplied_or_def is_text_def opt_str_def split: option.splits)

lemma is_boolean_supplied_or:
  "field_ok is_boolean_or_null kvs k \<Longrightarrow> is_boolean_or_null (supplied_or kvs k (opt_bool c))"
  by (auto simp: field_ok_def supplied_or_def is_boolean_or_null_def opt_bool_def
           split: option.splits)

lemma get_method_supplied_or: "get_method (JObj kvs) k other = Inr (supplied_or kvs k other)"
  by (simp add: supplied_or_def split: option.splits)

lemma find_replaced:
  "x \<in> set rs \<Longrightarrow> id' x = i \<Longrightarrow> id' x' = i \<Longrightarrow>
   find (\<lambda>r. id' r = i) (map (\<lambda>y. if id' y = i then x' else y) rs) = Some x'"
  by (induction rs) auto

lemma find_by_key:
  "distinct (map id' rs) \<Longrightarrow> x \<in> set rs \<Longrightarrow> find (\<lambda>r. id' r = id' x) rs = Some x"
  by (induction rs) (auto simp: image_iff)

text \<open>
  C8, as stated, fails: a body that has the keys \<^verbatim>\<open>date\<close> and \<^verbatim>\<open>user\<close> but gives
  \<^verbatim>\<open>date\<close> the value null is refused by the column's \<^verbatim>\<open>nullable=False\<close>, and the answer
  is 500 with nothing stored.
\<close>

theorem add_null_date_counterexample:
  "has_key null_date ''date'' \<and> has_key null_date ''user'' \<and>
   fst (fst (handle build empty_db (POST_schedules null_date))) = 500 \<and>
   rows (snd (handle build empty_db (POST_schedules null_date))) = []"
  by (simp add: has_key_def null_date_def handle_POST add_schedule_new_session request_json_def
        new_schedule_def not_null_def error_response_def empty_db_def)

text \<open>
  C8, amended. While the database is available, for every \<^verbatim>\<open>POST /api/schedules\<close> whose
  body is a JSON object that gives \<^verbatim>\<open>date\<close> and \<^verbatim>\<open>user\<close> string values, with
  \<^verbatim>\<open>checkInTime\<close> and \<^verbatim>\<open>reflection\<close> absent, null or strings and \<^verbatim>\<open>exercised\<close> absent
  or a boolean, the answer has status 201 and its body is the stored record: the record is
  appended to the table with an id that no stored record has, the supplied date and user,
  \<^verbatim>\<open>checkInTime\<close> and \<^verbatim>\<open>reflection\<close> equal to the supplied values or null when omitted,
  and \<^verbatim>\<open>exercised\<close> equal to the supplied value or false when omitted.
\<close>

theorem add_returns_created_record:
  assumes "available s" and "b = Some (JObj kvs)"
    and "map_of kvs ''date'' = Some (JStr d)" and "map_of kvs ''user'' = Some (JStr u)"
    and "field_ok is_text kvs ''checkInTime''" and "field_ok is_boolean kvs ''exercised''"
    and "field_ok is_text kvs ''reflection''"
  shows "\<exists>row. fst (handle fs s (POST_schedules b)) = (201, Json (to_dict row)) \<and>
           rows (snd (handle fs s (POST_schedules b))) = rows s @ [row] \<and>
           id' row \<notin> set (map id' (rows s)) \<and> date row = d \<and> user row = u \<and>
           opt_str (checkInTime row) = supplied_or kvs ''checkInTime'' JNull \<and>
           opt_bool (exercised row) = supplied_or kvs ''exercised'' (JBool False) \<and>
           opt_str (reflection row) = supplied_or kvs ''reflection'' JNull"
proof -
  let ?c = "supplied_or kvs ''checkInTime'' JNull"
  let ?e = "supplied_or kvs ''exercised'' (JBool False)"
  let ?r = "supplied_or kvs ''reflection'' JNull"
  have obj: "and_then (request_json b) new_schedule = Inr (New (JStr d) (JStr u) ?c ?e ?r)"
    using assms(2-4)
    by (simp add: request_json_def new_schedule_def get_method_supplied_or
             del: get_method.simps)
  have "is_text ?c"
    using assms(5) by (auto simp: field_ok_def supplied_or_def is_text_def split: option.splits)
  then obtain c' where c: "bind_text ?c = Inr c'" "opt_str c' = ?c"
    using bind_text_ok by blast
  have "is_text ?r"
    using assms(7) by (auto simp: field_ok_def supplied_or_def is_text_def split: option.splits)
  then obtain r' where r: "bind_text ?r = Inr r'" "opt_str r' = ?r"
    using bind_text_ok by blast
  have "is_boolean ?e"
    using assms(6) by (auto simp: field_ok_def supplied_or_def is_boolean_def split: option.splits)
  then obtain e' where e: "?e = JBool e'"
    by (cases ?e) (simp_all add: is_boolean_def)
  define row where "row = \<lparr>id' = next_id (rows s), date = d, user = u, checkInTime = c',
                           exercised = Some e', reflection = r'\<rparr>"
  have fl: "flush_one (rows s) (New (JStr d) (JStr u) ?c ?e ?r) =
              Inr (rows s @ [row], next_id (rows s))"
    by (simp add: c r e not_null_def with_default_def row_def)
  have fnd: "find (\<lambda>r. id' r = next_id (rows s)) (rows s @ [row]) = Some row"
    using next_id_fresh [of "rows s"] by (intro find_append_fresh) (simp_all add: row_def)
  have res: "handle fs s (POST_schedules b) =
      ((201, Json (to_dict row)), (new_session s)\<lparr>rows := rows s @ [row]\<rparr>)"
    by (simp add: handle_POST add_schedule_new_session obj assms(1) fl fnd del: flush_one.simps)
  have "id' row \<notin> set (map id' (rows s))"
    using next_id_fresh [of "rows s"] by (simp add: row_def)
  moreover have "opt_bool (exercised row) = ?e"
    by (simp add: row_def e opt_bool_def)
  ultimately show ?thesis
    using res c r by (intro exI [of _ row]) (simp add: row_def)
qed

theorem add_returns_created_record_witness:
  "fst (handle build two_rows (POST_schedules new_entry)) =
     (201, Json (JObj [(''id'', JInt 3), (''date'', JStr ''2024-01-02''),
        (''user'', JStr ''alice''), (''checkInTime'', JNull), (''exercised'', JBool False),
        (''reflection'', JNull)]))"
proof -
  let ?kvs = "[(''date'', JStr ''2024-01-02''), (''user'', JStr ''alice'')]"
  have av: "available two_rows" by (simp add: two_rows_def)
  have b: "new_entry = Some (JObj ?kvs)" by (simp add: new_entry_def)
  have d: "map_of ?kvs ''date'' = Some (JStr ''2024-01-02'')" by simp
  have u: "map_of ?kvs ''user'' = Some (JStr ''alice'')" by simp
  have f1: "field_ok is_text ?kvs ''checkInTime''" by (simp add: field_ok_def)
  have f2: "field_ok is_boolean ?kvs ''exercised''" by (simp add: field_ok_def)
  have f3: "field_ok is_text ?kvs ''reflection''" by (simp add: field_ok_def)
  from add_returns_created_record [OF av b d u f1 f2 f3, of build]
  obtain row where resp: "fst (handle build two_rows (POST_schedules new_entry)) = (201, Json (to_dict row))"
    and rs: "rows (snd (handle build two_rows (POST_schedules new_entry))) = rows two_rows @ [row]"
    and flds: "date row = ''2024-01-02''" "user row = ''alice''"
      "opt_str (checkInTime row) = supplied_or ?kvs ''checkInTime'' JNull"
      "opt_bool (exercised row) = supplied_or ?kvs ''exercised'' (JBool False)"
      "opt_str (reflection row) = supplied_or ?kvs ''reflection'' JNull"
    by blast
  have "map id' (rows (snd (handle build two_rows (POST_schedules new_entry)))) = [1, 2, 3]"
    by code_simp
  with rs have "id' row = 3" by (simp add: two_rows_def)
  with flds have "to_dict row = JObj [(''id'', JInt 3), (''date'', JStr ''2024-01-02''),
        (''user'', JStr ''alice''), (''checkInTime'', JNull), (''exercised'', JBool False),
        (''reflection'', JNull)]"
    by (simp add: to_dict_def supplied_or_def)
  with resp show ?thesis by simp
qed

lemma bind_text_opt_str: "bind_text (opt_str v) = Inr v"
  by (cases v) (simp_all add: opt_str_def)

lemma bind_bool_opt_bool: "bind_bool (opt_bool v) = Inr v"
  by (cases v) (simp_all add: opt_bool_def)

text \<open>What a PUT with an object body does to the stored record with its id.\<close>

lemma put_staged:
  assumes "available s" and "distinct (map id' (rows s))" and "x \<in> set (rows s)"
    and "id' x = i" and "b = Some (JObj kvs)"
  shows "and_then (get_or_404 (new_session s) i)
           (\<lambda>schedule. and_then (request_json b) (assign schedule)) =
         Inr (Dirty i (supplied_or kvs ''checkInTime'' (opt_str (checkInTime x)))
                      (supplied_or kvs ''exercised'' (opt_bool (exercised x)))
                      (supplied_or kvs ''reflection'' (opt_str (reflection x))))"
proof -
  from find_by_key [OF assms(2,3)] assms(1,4)
  have "get_or_404 (new_session s) i = Inr x"
    by (simp add: get_or_404_def query_all_new_session)
  then show ?thesis
    using assms(4,5)
    by (simp add: request_json_def assign_def get_method_supplied_or del: get_method.simps)
qed

lemma put_success:
  assumes av: "available s" and dist: "distinct (map id' (rows s))"
    and mem: "x \<in> set (rows s)" and idx: "id' x = i" and body: "b = Some (JObj kvs)"
    and c: "bind_text (supplied_or kvs ''checkInTime'' (opt_str (checkInTime x))) = Inr c'"
    and e: "bind_bool (supplied_or kvs ''exercised'' (opt_bool (exercised x))) = Inr e'"
    and r: "bind_text (supplied_or kvs ''reflection'' (opt_str (reflection x))) = Inr r'"
    and x': "x' = x\<lparr>checkInTime := c', exercised := e', reflection := r'\<rparr>"
  shows "handle fs s (PUT_schedules i b) =
           ((200, Json (to_dict x')),
            (new_session s)\<lparr>rows := map (\<lambda>y. if id' y = i then x' else y) (rows s)\<rparr>)"
proof -
  let ?c = "supplied_or kvs ''checkInTime'' (opt_str (checkInTime x))"
  let ?e = "supplied_or kvs ''exercised'' (opt_bool (exercised x))"
  let ?r = "supplied_or kvs ''reflection'' (opt_str (reflection x))"
  have same: "(if id' y = i then y\<lparr>checkInTime := c', exercised := e', reflection := r'\<rparr> else y) =
              (if id' y = i then x' else y)" if "y \<in> set (rows s)" for y
  proof (cases "id' y = i")
    case True
    with find_by_key [OF dist that] find_by_key [OF dist mem] idx have "y = x" by simp
    then show ?thesis by (simp add: x')
  qed simp
  have imem: "i \<in> set (map id' (rows s))" using mem idx by force
  have fl: "flush_one (rows s) (Dirty i ?c ?e ?r) =
              Inr (map (\<lambda>y. if id' y = i then x' else y) (rows s), i)"
    using imem same by (simp add: c e r del: set_map cong: map_cong)
  have fnd: "find (\<lambda>r. id' r = i) (map (\<lambda>y. if id' y = i then x' else y) (rows s)) = Some x'"
    using mem idx by (intro find_replaced) (simp_all add: x')
  show ?thesis
    by (simp add: handle_PUT update_schedule_new_session put_staged [OF av dist mem idx body]
          av fl fnd del: flush_one.simps)
qed

lemma put_200_binds:
  assumes dist: "distinct (map id' (rows s))"
    and mem: "x \<in> set (rows s)" and idx: "id' x = i" and body: "b = Some (JObj kvs)"
    and ok: "fst (fst (handle fs s (PUT_schedules i b))) = 200"
  shows "available s \<and>
         (\<exists>c' e' r'.
            bind_text (supplied_or kvs ''checkInTime'' (opt_str (checkInTime x))) = Inr c' \<and>
            bind_bool (supplied_or kvs ''exercised'' (opt_bool (exercised x))) = Inr e' \<and>
            bind_text (supplied_or kvs ''reflection'' (opt_str (reflection x))) = Inr r')"
proof -
  let ?c = "supplied_or kvs ''checkInTime'' (opt_str (checkInTime x))"
  let ?e = "supplied_or kvs ''exercised'' (opt_bool (exercised x))"
  let ?r = "supplied_or kvs ''reflection'' (opt_str (reflection x))"
  have av: "available s"
  proof (rule ccontr)
    assume "\<not> available s"
    then have "fst (fst (handle fs s (PUT_schedules i b))) = 500"
      by (simp add: handle_PUT update_schedule_new_session get_or_404_def query_all_new_session)
    with ok show False by simp
  qed
  note staged = put_staged [OF av dist mem idx body]
  have "\<exists>c'. bind_text ?c = Inr c'"
  proof (cases "bind_text ?c")
    case (Inl err)
    then have "fst (fst (handle fs s (PUT_schedules i b))) = 500"
      by (simp add: handle_PUT update_schedule_new_session staged av)
    with ok show ?thesis by simp
  qed simp
  moreover have "\<exists>e'. bind_bool ?e = Inr e'"
  proof (cases "bind_bool ?e")
    case (Inl err)
    then have "fst (fst (handle fs s (PUT_schedules i b))) = 500"
      by (cases "bind_text ?c") (simp_all add: handle_PUT update_schedule_new_session staged av)
    with ok show ?thesis by simp
  qed simp
  moreover have "\<exists>r'. bind_text ?r = Inr r'"
  proof (cases "bind_text ?r")
    case (Inl err)
    then have "fst (fst (handle fs s (PUT_schedules i b))) = 500"
      by (cases "bind_text ?c"; cases "bind_bool ?e")
         (simp_all add: handle_PUT update_schedule_new_session staged av)
    with ok show ?thesis by simp
  qed simp
  ultimately show ?thesis using av by blast
qed

lemma updated_by_binds:
  assumes "bind_text (supplied_or kvs ''checkInTime'' (opt_str (checkInTime x))) = Inr c'"
    and "bind_bool (supplied_or kvs ''exercised'' (opt_bool (exercised x))) = Inr e'"
    and "bind_text (supplied_or kvs ''reflection'' (opt_str (reflection x))) = Inr r'"
  shows "updated kvs x (x\<lparr>checkInTime := c', exercised := e', reflection := r'\<rparr>)"
  using assms
  by (auto simp: updated_def supplied_or_def bind_text_opt_str bind_bool_opt_bool
           split: option.splits)

text \<open>
  C1, as stated, fails: a PUT whose body supplies \<^verbatim>\<open>exercised\<close> with a value that the
  boolean column refuses is answered with 500, and the supplied field is not overwritten.
\<close>

theorem update_refused_value_counterexample:
  "has_key exercised_yes ''exercised'' \<and>
   fst (fst (handle build two_rows (PUT_schedules 1 exercised_yes))) = 500 \<and>
   rows (snd (handle build two_rows (PUT_schedules 1 exercised_yes))) = [alice, bob]"
  by (simp add: has_key_def exercised_yes_def handle_PUT update_schedule_new_session
        get_or_404_def query_all_new_session request_json_def assign_def two_rows_def
        alice_def bob_def opt_str_def opt_bool_def)

text \<open>
  C1, amended. A PUT never changes the id, the date or the user of any stored record,
  whatever its body and its outcome, and a PUT that does not answer 200 changes no stored
  field at all. For a stored record (ids being the primary key) and a body that is a JSON
  object: when the PUT answers 200, the answer is the updated record, in which every field
  omitted from the body keeps its value and every supplied field among \<^verbatim>\<open>checkInTime\<close>,
  \<^verbatim>\<open>exercised\<close>, \<^verbatim>\<open>reflection\<close> holds the supplied value as its column stores it, and
  every other record is left as it is. When moreover the database is available and the
  supplied values have the JSON types of their columns (string or null for
  \<^verbatim>\<open>checkInTime\<close> and \<^verbatim>\<open>reflection\<close>, boolean or null for \<^verbatim>\<open>exercised\<close>), the PUT does
  answer 200 and the supplied fields hold exactly the supplied values.
\<close>

theorem update_overwrites_supplied_fields:
  "map id' (rows (snd (handle fs s (PUT_schedules i b)))) = map id' (rows s) \<and>
   map date (rows (snd (handle fs s (PUT_schedules i b)))) = map date (rows s) \<and>
   map user (rows (snd (handle fs s (PUT_schedules i b)))) = map user (rows s) \<and>
   (fst (fst (handle fs s (PUT_schedules i b))) \<noteq> 200 \<longrightarrow>
      rows (snd (handle fs s (PUT_schedules i b))) = rows s) \<and>
   (distinct (map id' (rows s)) \<and> x \<in> set (rows s) \<and> id' x = i \<and> b = Some (JObj kvs) \<longrightarrow>
      (fst (fst (handle fs s (PUT_schedules i b))) = 200 \<longrightarrow>
         (\<exists>x'. updated kvs x x' \<and>
               fst (handle fs s (PUT_schedules i b)) = (200, Json (to_dict x')) \<and>
               rows (snd (handle fs s (PUT_schedules i b))) =
                 map (\<lambda>y. if id' y = i then x' else y) (rows s))) \<and>
      (available s \<and> field_ok is_text kvs ''checkInTime'' \<and>
       field_ok is_boolean_or_null kvs ''exercised'' \<and> field_ok is_text kvs ''reflection'' \<longrightarrow>
         (\<exists>x'. overwritten kvs x x' \<and>
               fst (handle fs s (PUT_schedules i b)) = (200, Json (to_dict x')) \<and>
               rows (snd (handle fs s (PUT_schedules i b))) =
                 map (\<lambda>y. if id' y = i then x' else y) (rows s))))"
proof -
  let ?c = "supplied_or kvs ''checkInTime'' (opt_str (checkInTime x))"
  let ?e = "supplied_or kvs ''exercised'' (opt_bool (exercised x))"
  let ?r = "supplied_or kvs ''reflection'' (opt_str (reflection x))"
  obtain r s' where eq: "update_schedule (new_session s) i b = (r, s')"
    by (cases "update_schedule (new_session s) i b")
  from update_schedule_outcome [OF eq] eq
  have frame: "map id' (rows (snd (handle fs s (PUT_schedules i b)))) = map id' (rows s) \<and>
     map date (rows (snd (handle fs s (PUT_schedules i b)))) = map date (rows s) \<and>
     map user (rows (snd (handle fs s (PUT_schedules i b)))) = map user (rows s)"
    by (auto simp: handle_PUT)
  from update_schedule_outcome [OF eq] eq
  have refused: "fst (fst (handle fs s (PUT_schedules i b))) \<noteq> 200 \<longrightarrow>
      rows (snd (handle fs s (PUT_schedules i b))) = rows s"
    by (auto simp: handle_PUT)
  have any: "\<exists>x'. updated kvs x x' \<and>
            fst (handle fs s (PUT_schedules i b)) = (200, Json (to_dict x')) \<and>
            rows (snd (handle fs s (PUT_schedules i b))) =
              map (\<lambda>y. if id' y = i then x' else y) (rows s)"
    if dist: "distinct (map id' (rows s))" and mem: "x \<in> set (rows s)" and idx: "id' x = i"
      and body: "b = Some (JObj kvs)" and ok: "fst (fst (handle fs s (PUT_schedules i b))) = 200"
  proof -
    from put_200_binds [OF dist mem idx body ok]
    obtain c' e' r' where av: "available s"
      and c: "bind_text ?c = Inr c'" and e: "bind_bool ?e = Inr e'" and r: "bind_text ?r = Inr r'"
      by blast
    from put_success [OF av dist mem idx body c e r refl] updated_by_binds [OF c e r]
    show ?thesis by auto
  qed
  have typed: "\<exists>x'. overwritten kvs x x' \<and>
            fst (handle fs s (PUT_schedules i b)) = (200, Json (to_dict x')) \<and>
            rows (snd (handle fs s (PUT_schedules i b))) =
              map (\<lambda>y. if id' y = i then x' else y) (rows s)"
    if dist: "distinct (map id' (rows s))" and mem: "x \<in> set (rows s)" and idx: "id' x = i"
      and body: "b = Some (JObj kvs)" and av: "available s"
      and t1: "field_ok is_text kvs ''checkInTime''"
      and t2: "field_ok is_boolean_or_null kvs ''exercised''"
      and t3: "field_ok is_text kvs ''reflection''"
  proof -
    obtain c' where c: "bind_text ?c = Inr c'" "opt_str c' = ?c"
      using bind_text_ok [OF is_text_supplied_or [OF t1]] by blast
    obtain e' where e: "bind_bool ?e = Inr e'" "opt_bool e' = ?e"
      using bind_bool_ok [OF is_boolean_supplied_or [OF t2]] by blast
    obtain r' where r: "bind_text ?r = Inr r'" "opt_str r' = ?r"
      using bind_text_ok [OF is_text_supplied_or [OF t3]] by blast
    have "overwritten kvs x (x\<lparr>checkInTime := c', exercised := e', reflection := r'\<rparr>)"
      by (simp add: overwritten_def c e r)
    with put_success [OF av dist mem idx body c(1) e(1) r(1) refl] show ?thesis by auto
  qed
  from frame refused any typed show ?thesis by blast
qed

theorem update_overwrites_supplied_fields_witness:
  "fst (handle build two_rows (PUT_schedules 1 (Some (JObj [(''exercised'', JBool True)])))) =
     (200, Json (JObj [(''id'', JInt 1), (''date'', JStr ''2024-01-01''),
        (''user'', JStr ''alice''), (''checkInTime'', JNull), (''exercised'', JBool True),
        (''reflection'', JNull)])) \<and>
   rows (snd (handle build two_rows (PUT_schedules 1 (Some (JObj [(''exercised'', JBool True)]))))) =
     [alice\<lparr>exercised := Some True\<rparr>, bob]"
proof -
  let ?kvs = "[(''exercised'', JBool True)]"
  have pre: "distinct (map id' (rows two_rows)) \<and> alice \<in> set (rows two_rows) \<and>
    id' alice = 1 \<and> Some (JObj ?kvs) = Some (JObj ?kvs)"
    by (simp add: two_rows_def alice_def bob_def)
  have ty: "available two_rows \<and> field_ok is_text ?kvs ''checkInTime'' \<and>
    field_ok is_boolean_or_null ?kvs ''exercised'' \<and> field_ok is_text ?kvs ''reflection''"
    by (simp add: two_rows_def field_ok_def is_boolean_or_null_def)
  from update_overwrites_supplied_fields [of build two_rows 1 "Some (JObj ?kvs)" alice ?kvs] pre ty
  obtain x' where x': "overwritten ?kvs alice x'"
    and resp: "fst (handle build two_rows (PUT_schedules 1 (Some (JObj ?kvs)))) = (200, Json (to_dict x'))"
    and rs: "rows (snd (handle build two_rows (PUT_schedules 1 (Some (JObj ?kvs))))) =
               map (\<lambda>y. if id' y = 1 then x' else y) (rows two_rows)"
    by blast
  from x' have "x' = alice\<lparr>exercised := Some True\<rparr>"
    by (cases x') (auto simp: overwritten_def supplied_or_def alice_def opt_str_def opt_bool_def
          split: option.splits)
  with resp rs show ?thesis
    by (simp add: two_rows_def alice_def bob_def to_dict_def opt_str_def opt_bool_def)
qed

text \<open>
  C2. Whenever \<^verbatim>\<open>POST /api/schedules\<close> or \<^verbatim>\<open>PUT /api/schedules/<id>\<close> fails, that is,
  answers with status 500, the transaction of the request has been rolled back by the time
  the error response is ready: no write of the request is left with the session, and the
  stored rows are those from before the request. A failure before the commit happens
  before anything is staged; a commit that fails rolls its own transaction back before the
  except clause of the route builds the response. (The route itself never calls
  \<^verbatim>\<open>rollback()\<close>, so after a failed commit the session stays inactive for the rest of
  the request; the route does not use it again.)
\<close>

theorem failed_write_is_rolled_back:
  assumes "mutating req" and "fst (fst (handle fs s req)) = 500"
  shows "staged (snd (handle fs s req)) = [] \<and> rows (snd (handle fs s req)) = rows s"
proof (cases req)
  case (POST_schedules b)
  obtain r s' where eq: "add_schedule (new_session s) b = (r, s')"
    by (cases "add_schedule (new_session s) b")
  from add_schedule_outcome [OF eq] assms(2) eq POST_schedules show ?thesis
    by (auto simp: handle_POST)
next
  case (PUT_schedules i b)
  obtain r s' where eq: "update_schedule (new_session s) i b = (r, s')"
    by (cases "update_schedule (new_session s) i b")
  from update_schedule_outcome [OF eq] assms(2) eq PUT_schedules show ?thesis
    by (auto simp: handle_PUT)
qed (use assms(1) in simp_all)

theorem failed_write_is_rolled_back_witness:
  "fst (fst (handle build two_rows (POST_schedules null_date))) = 500 \<and>
   staged (snd (handle build two_rows (POST_schedules null_date))) = [] \<and>
   rows (snd (handle build two_rows (POST_schedules null_date))) = [alice, bob] \<and>
   fst (fst (handle build two_rows (PUT_schedules 1 exercised_yes))) = 500 \<and>
   staged (snd (handle build two_rows (PUT_schedules 1 exercised_yes))) = [] \<and>
   rows (snd (handle build two_rows (PUT_schedules 1 exercised_yes))) = [alice, bob]"
proof -
  have m1: "mutating (POST_schedules null_date)" by simp
  have f1: "fst (fst (handle build two_rows (POST_schedules null_date))) = 500"
    by (simp add: null_date_def handle_POST add_schedule_new_session request_json_def
          new_schedule_def not_null_def)
  have m2: "mutating (PUT_schedules 1 exercised_yes)" by simp
  have f2: "fst (fst (handle build two_rows (PUT_schedules 1 exercised_yes))) = 500"
    by (simp add: exercised_yes_def handle_PUT update_schedule_new_session
        get_or_404_def query_all_new_session request_json_def assign_def two_rows_def
        alice_def bob_def opt_str_def opt_bool_def)
  from failed_write_is_rolled_back [OF m1 f1] failed_write_is_rolled_back [OF m2 f2] f1 f2
  show ?thesis by (simp add: two_rows_def)
qed

end
